theory Spec2Isabelle
  imports Complex_Main
begin

section \<open>Python values used by the notebook helpers\<close>

text \<open>
  The helper functions of \<^verbatim>\<open>llama_index_search_and_retrieval_tutorial.ipynb\<close> are
  embedded as HOL functions. An exception is a value: a computation that may raise has
  the type \<open>py_error + 'a\<close>, with \<open>Inl\<close> for the exception.
\<close>

datatype py_error = ValueError | KeyError | ZeroDivisionError

text \<open>
  A Python \<^verbatim>\<open>str\<close> is a \<open>string\<close>: a list of characters whose code points are below
  256. In that range the characters for which \<^verbatim>\<open>str.isspace\<close> holds are TAB, LF, VT,
  FF, CR, the separators FS, GS, RS, US, the space, NEL (0x85) and the no-break space
  (0xA0); the only decimal digits are \<^verbatim>\<open>0\<close> to \<^verbatim>\<open>9\<close>.
\<close>

definition py_isspace :: "char \<Rightarrow> bool" where
  "py_isspace c = (of_char c \<in> {9, 10, 11, 12, 13, 28, 29, 30, 31, 32, 133, 160 :: nat})"

text \<open>\<^verbatim>\<open>s.strip()\<close>: the string without its leading and trailing whitespace.\<close>

definition py_strip :: "string \<Rightarrow> string" where
  "py_strip s = rev (dropWhile py_isspace (rev (dropWhile py_isspace s)))"

subsection \<open>The builtin \<^verbatim>\<open>int(str)\<close>\<close>

text \<open>
  \<^verbatim>\<open>int(s)\<close> in base 10 skips whitespace on both sides, reads an optional sign, and then
  decimal digits, where single underscores may stand between two digits. Leading zeros
  are accepted. Anything else raises \<^verbatim>\<open>ValueError\<close>. The whitespace that \<^verbatim>\<open>int\<close> skips
  is the C locale's (TAB to CR and the space) together with the non-ASCII whitespace,
  which the interpreter turns into spaces before parsing; the separators FS to US are
  not skipped.
\<close>

definition int_isspace :: "char \<Rightarrow> bool" where
  "int_isspace c = (of_char c \<in> {9, 10, 11, 12, 13, 32, 133, 160 :: nat})"

definition digit_value :: "char \<Rightarrow> nat option" where
  "digit_value c =
     (let n = (of_char c :: nat) in if 48 \<le> n \<and> n \<le> 57 then Some (n - 48) else None)"

text \<open>
  The scan over digits and underscores. \<open>prev\<close> is the character read last, \<open>acc\<close> the
  digits read so far. It stops at the first character that is neither; an underscore
  after an underscore, or at the end of the digits, is an error.
\<close>

fun scan_digits :: "char option \<Rightarrow> nat list \<Rightarrow> string \<Rightarrow> (nat list \<times> string) option" where
  "scan_digits prev acc [] = (if prev = Some CHR ''_'' then None else Some (acc, []))"
| "scan_digits prev acc (c # cs) =
     (if c = CHR ''_'' then
        (if prev = Some CHR ''_'' then None else scan_digits (Some c) acc cs)
      else case digit_value c of
        Some d \<Rightarrow> scan_digits (Some c) (acc @ [d]) cs
      | None \<Rightarrow> (if prev = Some CHR ''_'' then None else Some (acc, c # cs)))"

definition decimal_value :: "nat list \<Rightarrow> int" where
  "decimal_value ds = foldl (\<lambda>a d. 10 * a + int d) 0 ds"

text \<open>
  \<open>max_str_digits\<close> is the interpreter's limit on the number of digits of a converted
  string (\<^verbatim>\<open>sys.get_int_max_str_digits()\<close>: 4300 by default since Python 3.11, 0 when
  the limit is off, as in every earlier version). It applies to more than 640 digits only.
\<close>

fun split_sign :: "string \<Rightarrow> int \<times> string" where
  "split_sign [] = (1, [])"
| "split_sign (c # r) =
     (if c = CHR ''+'' then (1, r) else if c = CHR ''-'' then (- 1, r) else (1, c # r))"

definition parse_digits :: "nat \<Rightarrow> string \<Rightarrow> py_error + int" where
  "parse_digits max_str_digits u =
     (if u = [] \<or> hd u = CHR ''_'' then Inl ValueError
      else case scan_digits None [] u of
        None \<Rightarrow> Inl ValueError
      | Some (ds, rest) \<Rightarrow>
          if ds = [] then Inl ValueError
          else if dropWhile int_isspace rest \<noteq> [] then Inl ValueError
          else if 640 < length ds \<and> 0 < max_str_digits \<and> max_str_digits < length ds
            then Inl ValueError
          else Inr (decimal_value ds))"

definition py_int :: "nat \<Rightarrow> string \<Rightarrow> py_error + int" where
  "py_int max_str_digits s =
     (case split_sign (dropWhile int_isspace s) of
        (sign, u) \<Rightarrow>
          (case parse_digits max_str_digits u of
             Inl e \<Rightarrow> Inl e
           | Inr v \<Rightarrow> Inr (sign * v)))"

subsection \<open>Dictionaries\<close>

text \<open>\<^verbatim>\<open>d[k]\<close> on a dictionary raises \<^verbatim>\<open>KeyError\<close> when the key is absent.\<close>

definition getitem :: "('k \<rightharpoonup> 'v) \<Rightarrow> 'k \<Rightarrow> py_error + 'v" where
  "getitem d k = (case d k of None \<Rightarrow> Inl KeyError | Some v \<Rightarrow> Inr v)"

section \<open>Parsing the binary responses\<close>

text \<open>
  \<^verbatim>\<open>
  def process_binary_responses(binary_responses, binary_to_string_map):
      processed_responses = []
      for binary_response in binary_responses:
          try:
              binary_value = int(binary_response.strip())
              processed_response = binary_to_string_map[binary_value]
          except (ValueError, KeyError):
              processed_response = None
          processed_responses.append(processed_response)
      return processed_responses
  \<close>
  The body of the \<^verbatim>\<open>try\<close> is \<open>try_body\<close>; the handler catches \<^verbatim>\<open>ValueError\<close> and
  \<^verbatim>\<open>KeyError\<close> and lets any other exception through. The unknown marker \<^verbatim>\<open>None\<close> is the
  \<open>None\<close> of the option type; a label \<open>v\<close> taken from the map is \<open>Some v\<close>.
\<close>

definition try_body :: "nat \<Rightarrow> (int \<rightharpoonup> 'v) \<Rightarrow> string \<Rightarrow> py_error + 'v" where
  "try_body max_str_digits binary_to_string_map binary_response =
     (case py_int max_str_digits (py_strip binary_response) of
        Inl e \<Rightarrow> Inl e
      | Inr binary_value \<Rightarrow> getitem binary_to_string_map binary_value)"

definition process_response :: "nat \<Rightarrow> (int \<rightharpoonup> 'v) \<Rightarrow> string \<Rightarrow> py_error + 'v option" where
  "process_response max_str_digits binary_to_string_map binary_response =
     (case try_body max_str_digits binary_to_string_map binary_response of
        Inr processed_response \<Rightarrow> Inr (Some processed_response)
      | Inl e \<Rightarrow> if e = ValueError \<or> e = KeyError then Inr None else Inl e)"

fun process_loop ::
  "nat \<Rightarrow> (int \<rightharpoonup> 'v) \<Rightarrow> 'v option list \<Rightarrow> string list \<Rightarrow> py_error + 'v option list" where
  "process_loop max_str_digits m processed_responses [] = Inr processed_responses"
| "process_loop max_str_digits m processed_responses (binary_response # rest) =
     (case process_response max_str_digits m binary_response of
        Inl e \<Rightarrow> Inl e
      | Inr processed_response \<Rightarrow>
          process_loop max_str_digits m (processed_responses @ [processed_response]) rest)"

definition process_binary_responses ::
  "nat \<Rightarrow> string list \<Rightarrow> (int \<rightharpoonup> 'v) \<Rightarrow> py_error + 'v option list" where
  "process_binary_responses max_str_digits binary_responses binary_to_string_map =
     process_loop max_str_digits binary_to_string_map [] binary_responses"

text \<open>The map of the notebook's call: \<^verbatim>\<open>{0: "irrelevant", 1: "relevant"}\<close>.\<close>

definition relevance_map :: "int \<rightharpoonup> string" where
  "relevance_map = [0 \<mapsto> ''irrelevant'', 1 \<mapsto> ''relevant'']"

text \<open>
  The characters that can occur in a string \<^verbatim>\<open>int\<close> accepts after \<^verbatim>\<open>strip\<close>, or in
  the whitespace around it.
\<close>

definition int_literal_char :: "char \<Rightarrow> bool" where
  "int_literal_char c =
     (py_isspace c \<or> c = CHR ''+'' \<or> c = CHR ''-'' \<or> c = CHR ''_'' \<or> digit_value c \<noteq> None)"

section \<open>The precision@k cell\<close>

text \<open>
  \<^verbatim>\<open>
  num_relevant_documents_array = np.zeros(len(query_df))
  for retrieved_context_index in range(0, num_retrieved_documents):
      num_retrieved_documents = retrieved_context_index + 1
      num_relevant_documents_array += (
          query_df[f"openai_relevance_{retrieved_context_index}"]
          .map(lambda x: int(x == "relevant"))
          .to_numpy()
      )
      query_df[precision_column] = pd.Series(
          num_relevant_documents_array / num_retrieved_documents
      )
  \<close>
  where \<^verbatim>\<open>precision_column\<close> stands for the source's f-string, the name
  \<^verbatim>\<open>openai_precision@\<close> followed by the value of \<^verbatim>\<open>num_retrieved_documents\<close>.
  A row of \<^verbatim>\<open>query_df\<close> holds the two relevance cells the loop reads; a cell is a label
  or \<^verbatim>\<open>None\<close>. The frame has the default index \<^verbatim>\<open>0..n-1\<close> that \<^verbatim>\<open>pd.merge\<close> gave it, so
  the new series is stored row by row. The entries of the array are the floats 0, 1 and
  2, and they are divided by 1 or 2: every value is a dyadic rational that a float
  holds exactly, and the model computes with them as real numbers. The element types of
  the arrays are not part of the model: for a frame without rows the type that the mapped
  column gets depends on the version of pandas, and the statements about the values the
  cell stores are made for frames with at least one row.
\<close>

record query_row =
  openai_relevance_0 :: "string option"
  openai_relevance_1 :: "string option"

text \<open>\<^verbatim>\<open>query_df[f"openai_relevance_{i}"]\<close>: only the columns 0 and 1 exist.\<close>

definition relevance_column :: "nat \<Rightarrow> query_row list \<Rightarrow> py_error + string option list" where
  "relevance_column i query_df =
     (if i = 0 then Inr (map openai_relevance_0 query_df)
      else if i = 1 then Inr (map openai_relevance_1 query_df)
      else Inl KeyError)"

text \<open>\<^verbatim>\<open>lambda x: int(x == "relevant")\<close>\<close>

definition is_relevant :: "string option \<Rightarrow> int" where
  "is_relevant x = (if x = Some ''relevant'' then 1 else 0)"

text \<open>
  \<^verbatim>\<open>a += b\<close> on arrays adds element by element; a right operand of length one is
  broadcast, any other difference of lengths raises \<^verbatim>\<open>ValueError\<close>.
\<close>

definition array_iadd :: "real list \<Rightarrow> int list \<Rightarrow> py_error + real list" where
  "array_iadd a b =
     (if length b = length a then Inr (map (\<lambda>(x, y). x + real_of_int y) (zip a b))
      else if length b = 1 then Inr (map (\<lambda>x. x + real_of_int (hd b)) a)
      else Inl ValueError)"

text \<open>
  The division of the array by the integer \<^verbatim>\<open>num_retrieved_documents\<close>. A zero divisor
  is the event \<open>ZeroDivisionError\<close> of the model (numpy reports it as a warning and
  stores \<^verbatim>\<open>inf\<close> or \<^verbatim>\<open>nan\<close>), so that its absence can be stated.
\<close>

definition array_div :: "real list \<Rightarrow> nat \<Rightarrow> py_error + real list" where
  "array_div a k = (if k = 0 then Inl ZeroDivisionError else Inr (map (\<lambda>x. x / real k) a))"

text \<open>
  The variables the loop assigns. \<open>openai_precision k\<close> is the column
  \<^verbatim>\<open>openai_precision@k\<close> of the frame.
\<close>

record precision_state =
  num_retrieved_documents :: nat
  num_relevant_documents_array :: "real list"
  openai_precision :: "nat \<rightharpoonup> real list"

definition precision_step ::
  "query_row list \<Rightarrow> nat \<Rightarrow> precision_state \<Rightarrow> py_error + precision_state" where
  "precision_step query_df retrieved_context_index st =
     (let k = retrieved_context_index + 1 in
      case relevance_column retrieved_context_index query_df of
        Inl e \<Rightarrow> Inl e
      | Inr col \<Rightarrow>
         (case array_iadd (num_relevant_documents_array st) (map is_relevant col) of
            Inl e \<Rightarrow> Inl e
          | Inr arr \<Rightarrow>
             (case array_div arr k of
                Inl e \<Rightarrow> Inl e
              | Inr q \<Rightarrow>
                  Inr \<lparr>num_retrieved_documents = k,
                       num_relevant_documents_array = arr,
                       openai_precision = (openai_precision st)(k \<mapsto> q)\<rparr>)))"

fun precision_loop ::
  "query_row list \<Rightarrow> nat list \<Rightarrow> precision_state \<Rightarrow> py_error + precision_state" where
  "precision_loop query_df [] st = Inr st"
| "precision_loop query_df (i # rest) st =
     (case precision_step query_df i st of
        Inl e \<Rightarrow> Inl e
      | Inr st' \<Rightarrow> precision_loop query_df rest st')"

text \<open>
  The cell, started with \<^verbatim>\<open>num_retrieved_documents = n\<close>. The range is computed once,
  before the loop assigns the variable.
\<close>

definition precision_cell :: "nat \<Rightarrow> query_row list \<Rightarrow> py_error + precision_state" where
  "precision_cell n query_df =
     precision_loop query_df [0..<n]
       \<lparr>num_retrieved_documents = n,
        num_relevant_documents_array = replicate (length query_df) 0,
        openai_precision = Map.empty\<rparr>"

text \<open>The evaluation cell sets \<^verbatim>\<open>num_retrieved_documents = 2\<close>.\<close>

definition num_retrieved_documents_initial :: nat where
  "num_retrieved_documents_initial = 2"

text \<open>
  Precision@k as the specification words it: the number of labels equal to
  \<^verbatim>\<open>"relevant"\<close> among the first \<open>k\<close>, divided by \<open>k\<close>.
\<close>

definition row_labels :: "query_row \<Rightarrow> string option list" where
  "row_labels r = [openai_relevance_0 r, openai_relevance_1 r]"

definition spec_precision_at :: "nat \<Rightarrow> string option list \<Rightarrow> real" where
  "spec_precision_at k labels =
     real (length (filter (\<lambda>l. l = Some ''relevant'') (take k labels))) / real k"


section \<open>Loading the index into a dataframe\<close>

text \<open>
  \<^verbatim>\<open>
  def load_llama_index_database_into_dataframe(docstore, vector_store) -> pd.DataFrame:
      text_list = []
      embeddings_list = []
      for doc_id in docstore["docstore/data"]:
          text_list.append(docstore["docstore/data"][doc_id]["__data__"]["text"])
          embeddings_list.append(np.array(vector_store["embedding_dict"][doc_id]))
      return pd.DataFrame({"text": text_list, "text_vector": embeddings_list})
  \<close>
  The two arguments are the nested dictionaries read from \<^verbatim>\<open>docstore.json\<close> and
  \<^verbatim>\<open>vector_store.json\<close>. A dictionary is a list of key-value pairs in insertion order,
  with distinct keys; iterating it yields the keys in that order. \<open>'vec\<close> is
  the type of an embedding, which \<^verbatim>\<open>np.array\<close> only converts.
\<close>

type_synonym 'a dict = "(string \<times> 'a) list"

definition then_getitem :: "py_error + 'a dict \<Rightarrow> string \<Rightarrow> py_error + 'a" where
  "then_getitem r k = (case r of Inl e \<Rightarrow> Inl e | Inr d \<Rightarrow> getitem (map_of d) k)"

text \<open>\<^verbatim>\<open>docstore["docstore/data"][doc_id]["__data__"]["text"]\<close>\<close>

definition docstore_text :: "string dict dict dict dict \<Rightarrow> string \<Rightarrow> py_error + string" where
  "docstore_text docstore doc_id =
     then_getitem (then_getitem (then_getitem
       (getitem (map_of docstore) ''docstore/data'') doc_id) ''__data__'') ''text''"

text \<open>\<^verbatim>\<open>vector_store["embedding_dict"][doc_id]\<close>\<close>

definition vector_store_embedding :: "'vec dict dict \<Rightarrow> string \<Rightarrow> py_error + 'vec" where
  "vector_store_embedding vector_store doc_id =
     then_getitem (getitem (map_of vector_store) ''embedding_dict'') doc_id"

record 'vec dataframe =
  text_column :: "string list"
  text_vector_column :: "'vec list"

text \<open>\<^verbatim>\<open>pd.DataFrame\<close> refuses columns of different lengths with \<^verbatim>\<open>ValueError\<close>.\<close>

definition make_dataframe :: "string list \<Rightarrow> 'vec list \<Rightarrow> py_error + 'vec dataframe" where
  "make_dataframe text_list embeddings_list =
     (if length text_list = length embeddings_list
      then Inr \<lparr>text_column = text_list, text_vector_column = embeddings_list\<rparr>
      else Inl ValueError)"

fun load_loop ::
  "string dict dict dict dict \<Rightarrow> 'vec dict dict \<Rightarrow> string list \<Rightarrow> 'vec list \<Rightarrow> string list
     \<Rightarrow> py_error + string list \<times> 'vec list" where
  "load_loop docstore vector_store text_list embeddings_list [] =
     Inr (text_list, embeddings_list)"
| "load_loop docstore vector_store text_list embeddings_list (doc_id # rest) =
     (case docstore_text docstore doc_id of
        Inl e \<Rightarrow> Inl e
      | Inr t \<Rightarrow>
         (case vector_store_embedding vector_store doc_id of
            Inl e \<Rightarrow> Inl e
          | Inr v \<Rightarrow>
              load_loop docstore vector_store (text_list @ [t]) (embeddings_list @ [v]) rest))"

definition load_llama_index_database_into_dataframe ::
  "string dict dict dict dict \<Rightarrow> 'vec dict dict \<Rightarrow> py_error + 'vec dataframe" where
  "load_llama_index_database_into_dataframe docstore vector_store =
     (case getitem (map_of docstore) ''docstore/data'' of
        Inl e \<Rightarrow> Inl e
      | Inr d \<Rightarrow>
         (case load_loop docstore vector_store [] [] (map fst d) of
            Inl e \<Rightarrow> Inl e
          | Inr (text_list, embeddings_list) \<Rightarrow> make_dataframe text_list embeddings_list))"

section \<open>The retried evaluation call\<close>













section \<open>Properties of the binary-response parser\<close>

subsection \<open>Exceptions and the shape of the result\<close>

lemma py_int_raises: "py_int mx s = Inl e \<Longrightarrow> e = ValueError"
  by (auto simp: py_int_def parse_digits_def split: if_splits option.splits prod.splits sum.splits)

lemma getitem_raises: "getitem d k = Inl e \<Longrightarrow> e = KeyError"
  by (auto simp: getitem_def split: option.splits)

lemma process_response_eq:
  "process_response mx m s =
     Inr (case py_int mx (py_strip s) of Inl e \<Rightarrow> None | Inr v \<Rightarrow> m v)"
  by (auto simp: process_response_def try_body_def getitem_def
           split: sum.splits option.splits dest: py_int_raises)

lemma process_loop_eq:
  "process_loop mx m acc rs =
     Inr (acc @ map (\<lambda>s. case py_int mx (py_strip s) of Inl e \<Rightarrow> None | Inr v \<Rightarrow> m v) rs)"
  by (induction rs arbitrary: acc) (simp_all add: process_response_eq)

lemma process_binary_responses_eq:
  "process_binary_responses mx rs m =
     Inr (map (\<lambda>s. case py_int mx (py_strip s) of Inl e \<Rightarrow> None | Inr v \<Rightarrow> m v) rs)"
  by (simp add: process_binary_responses_def process_loop_eq)

lemma scan_digits_prefix:
  "scan_digits prev acc s = Some (ds, rest) \<Longrightarrow>
     \<exists>pre. s = pre @ rest \<and> (\<forall>c\<in>set pre. c = CHR ''_'' \<or> digit_value c \<noteq> None)"
proof (induction s arbitrary: prev acc)
  case Nil
  then show ?case by (simp split: if_splits)
next
  case (Cons c cs)
  show ?case
  proof (cases "c = CHR ''_'' \<or> digit_value c \<noteq> None")
    case True
    then obtain p a where "scan_digits p a cs = Some (ds, rest)"
      using Cons.prems by (auto split: if_splits option.splits)
    from Cons.IH [OF this] obtain pre where
      "cs = pre @ rest" "\<forall>c\<in>set pre. c = CHR ''_'' \<or> digit_value c \<noteq> None" by blast
    with True have "c # cs = (c # pre) @ rest \<and> (\<forall>c\<in>set (c # pre). c = CHR ''_'' \<or> digit_value c \<noteq> None)"
      by simp
    then show ?thesis by blast
  next
    case False
    with Cons.prems have "rest = c # cs" by (auto split: if_splits option.splits)
    then show ?thesis by simp
  qed
qed

lemma int_isspace_py_isspace: "int_isspace c \<Longrightarrow> py_isspace c"
  by (auto simp: int_isspace_def py_isspace_def)

lemma dropWhile_Nil_all: "dropWhile P xs = [] \<Longrightarrow> \<forall>x\<in>set xs. P x"
  by (simp add: dropWhile_eq_Nil_conv)

lemma split_sign_cases:
  "split_sign t = (sg, u) \<Longrightarrow> t = u \<or> t = CHR ''+'' # u \<or> t = CHR ''-'' # u"
  by (cases t) (auto split: if_splits)

lemma parse_digits_chars:
  assumes "parse_digits mx u = Inr v" and "c \<in> set u"
  shows "int_literal_char c"
proof -
  from assms(1) obtain ds rest where
    sc: "scan_digits None [] u = Some (ds, rest)" and r: "dropWhile int_isspace rest = []"
    by (auto simp: parse_digits_def split: if_splits option.splits prod.splits)
  from scan_digits_prefix [OF sc] obtain pre where
    u: "u = pre @ rest" and pre: "\<forall>c\<in>set pre. c = CHR ''_'' \<or> digit_value c \<noteq> None" by blast
  have "\<forall>x\<in>set rest. int_literal_char x"
    using dropWhile_Nil_all [OF r] by (auto simp: int_literal_char_def dest: int_isspace_py_isspace)
  with pre u assms(2) show ?thesis
    by (auto simp: int_literal_char_def)
qed

lemma py_int_chars:
  assumes "py_int mx s = Inr v" and "c \<in> set s"
  shows "int_literal_char c"
proof -
  define t where "t = dropWhile int_isspace s"
  have s: "s = takeWhile int_isspace s @ t" by (simp add: t_def)
  have lead: "\<forall>x\<in>set (takeWhile int_isspace s). int_literal_char x"
    by (auto simp: int_literal_char_def dest: set_takeWhileD int_isspace_py_isspace)
  obtain sg u where su: "split_sign t = (sg, u)" by (cases "split_sign t")
  with assms(1) obtain w where "parse_digits mx u = Inr w"
    by (auto simp: py_int_def t_def split: sum.splits)
  then have "\<forall>x\<in>set u. int_literal_char x" by (blast intro: parse_digits_chars)
  with split_sign_cases [OF su] have "\<forall>x\<in>set t. int_literal_char x"
    by (auto simp: int_literal_char_def)
  with lead s assms(2) show ?thesis
    by (metis Un_iff set_append)
qed

lemma py_strip_keeps:
  assumes "c \<in> set s" and "\<not> py_isspace c"
  shows "c \<in> set (py_strip s)"
proof -
  have 1: "c \<in> set (dropWhile py_isspace s)"
    using assms by (metis Un_iff set_append set_takeWhileD takeWhile_dropWhile_id)
  then have "c \<in> set (rev (dropWhile py_isspace s))" by simp
  then have "c \<in> set (dropWhile py_isspace (rev (dropWhile py_isspace s)))"
    using assms(2) by (metis Un_iff set_append set_takeWhileD takeWhile_dropWhile_id)
  then show ?thesis by (simp add: py_strip_def)
qed

text \<open>A string between whitespace is what \<^verbatim>\<open>strip\<close> leaves of it.\<close>

lemma py_strip_surrounded:
  assumes "\<forall>c\<in>set w1. py_isspace c" and "\<forall>c\<in>set w2. py_isspace c"
    and "t \<noteq> []" and "\<not> py_isspace (hd t)" and "\<not> py_isspace (last t)"
  shows "py_strip (w1 @ t @ w2) = t"
proof -
  have "dropWhile py_isspace (w1 @ t @ w2) = t @ w2"
    using assms by (cases t) (simp_all add: dropWhile_append3)
  moreover have "dropWhile py_isspace (rev w2 @ rev t) = rev t"
    using assms by (cases t rule: rev_cases) (simp_all add: dropWhile_append3)
  ultimately show ?thesis by (simp add: py_strip_def)
qed

lemma py_int_zero: "py_int mx ''0'' = Inr 0"
  by (simp add: py_int_def parse_digits_def int_isspace_def digit_value_def decimal_value_def)

lemma py_int_one: "py_int mx ''1'' = Inr 1"
  by (simp add: py_int_def parse_digits_def int_isspace_def digit_value_def decimal_value_def)

lemma py_int_empty: "py_int mx (py_strip []) = Inl ValueError"
  by (simp add: py_int_def parse_digits_def py_strip_def)

lemma relevance_map_simps:
  "relevance_map 0 = Some ''irrelevant''" "relevance_map 1 = Some ''relevant''"
  "relevance_map v = None \<longleftrightarrow> v \<noteq> 0 \<and> v \<noteq> 1"
  by (simp_all add: relevance_map_def)

lemma label_of_not_literal:
  assumes "c \<in> set s" and "\<not> int_literal_char c"
  shows "py_int mx (py_strip s) = Inl ValueError"
proof (cases "py_int mx (py_strip s)")
  case (Inl e)
  then show ?thesis using py_int_raises by blast
next
  case (Inr v)
  from assms have "c \<in> set (py_strip s)"
    by (auto simp: int_literal_char_def intro: py_strip_keeps)
  with Inr assms(2) show ?thesis using py_int_chars by blast
qed

lemmas parse_defs = process_binary_responses_def process_response_def try_body_def py_int_def
  parse_digits_def py_strip_def py_isspace_def int_isspace_def digit_value_def decimal_value_def
  getitem_def relevance_map_def

subsection \<open>The result is computed element by element\<close>

text \<open>
  Claim C7. For every list of response strings and every map, \<open>process_binary_responses\<close>
  returns (it raises nothing) a list of the length of its input, and the element at
  index \<open>i\<close> is what the function returns for the one-element list holding the input
  string at \<open>i\<close>: nothing is dropped, added or reordered, also where parsing fails.
\<close>

theorem process_binary_responses_elementwise:
  "\<exists>out. process_binary_responses mx rs m = Inr out \<and> length out = length rs \<and>
     (\<forall>i<length rs. process_binary_responses mx [rs ! i] m = Inr [out ! i])"
  by (simp add: process_binary_responses_eq)

text \<open>The theorem at the responses \<^verbatim>\<open>" 1 "\<close> and \<^verbatim>\<open>"yes"\<close>.\<close>

theorem process_binary_responses_elementwise_witness:
  "process_binary_responses 4300 ['' 1 '', ''yes''] relevance_map = Inr [Some ''relevant'', None] \<and>
   process_binary_responses 4300 [''yes''] relevance_map = Inr [None]"
proof -
  let ?rs = "['' 1 '', ''yes'']"
  have a: "process_binary_responses 4300 ['' 1 ''] relevance_map = Inr [Some ''relevant'']"
    "process_binary_responses 4300 [''yes''] relevance_map = Inr [None]"
    by (simp_all add: parse_defs)
  from process_binary_responses_elementwise [of 4300 ?rs relevance_map] obtain out where
    o: "process_binary_responses 4300 ?rs relevance_map = Inr out" "length out = length ?rs"
    and p: "\<forall>i<length ?rs. process_binary_responses 4300 [?rs ! i] relevance_map = Inr [out ! i]"
    by blast
  from p [rule_format, of 0] a have "out ! 0 = Some ''relevant''" by simp
  moreover from p [rule_format, of 1] a have "out ! 1 = None" by simp
  ultimately have "out = [Some ''relevant'', None]"
    using o(2) by (auto simp: list_eq_iff_nth_eq nth_Cons' less_Suc_eq numeral_eq_Suc)
  with o(1) a show ?thesis by simp
qed

subsection \<open>Labels under the map of the notebook\<close>

text \<open>
  The claim that every input other than \<^verbatim>\<open>"0"\<close> or \<^verbatim>\<open>"1"\<close> between whitespace gives the
  unknown marker fails: \<^verbatim>\<open>"01"\<close> is neither after stripping, and \<^verbatim>\<open>int("01")\<close> is 1.
\<close>

theorem binary_parser_other_input_counterexample:
  "py_strip ''01'' \<noteq> ''0'' \<and> py_strip ''01'' \<noteq> ''1'' \<and>
   process_binary_responses 4300 [''01''] relevance_map = Inr [Some ''relevant'']"
  by (simp add: parse_defs)

text \<open>
  Claim C1, amended. Under the map \<^verbatim>\<open>{0: "irrelevant", 1: "relevant"}\<close> the function
  returns a list of the length of its input in which, at every index: an input that is
  \<^verbatim>\<open>"0"\<close> or \<^verbatim>\<open>"1"\<close> between whitespace has its label; the element is the unknown
  marker exactly when \<^verbatim>\<open>int\<close> does not read the stripped input as 0 or as 1; the empty
  string has the unknown marker, and so has every string with a character that is not
  whitespace, a digit, a sign or an underscore (every letter, so \<^verbatim>\<open>"yes"\<close>).
\<close>

theorem binary_parser_labels:
  "\<exists>out. process_binary_responses mx rs relevance_map = Inr out \<and> length out = length rs \<and>
     (\<forall>i<length rs.
        (py_strip (rs ! i) = ''0'' \<longrightarrow> out ! i = Some ''irrelevant'') \<and>
        (py_strip (rs ! i) = ''1'' \<longrightarrow> out ! i = Some ''relevant'') \<and>
        (out ! i = None \<longleftrightarrow>
           py_int mx (py_strip (rs ! i)) \<noteq> Inr 0 \<and> py_int mx (py_strip (rs ! i)) \<noteq> Inr 1) \<and>
        (rs ! i = [] \<longrightarrow> out ! i = None) \<and>
        ((\<exists>c\<in>set (rs ! i). \<not> int_literal_char c) \<longrightarrow> out ! i = None))"
proof -
  let ?f = "\<lambda>s. case py_int mx (py_strip s) of Inl e \<Rightarrow> None | Inr v \<Rightarrow> relevance_map v"
  have 0: "py_strip s = ''0'' \<Longrightarrow> ?f s = Some ''irrelevant''" for s
    by (simp add: py_int_zero relevance_map_simps)
  have 1: "py_strip s = ''1'' \<Longrightarrow> ?f s = Some ''relevant''" for s
    by (simp add: py_int_one relevance_map_simps)
  have 2: "?f s = None \<longleftrightarrow>
             py_int mx (py_strip s) \<noteq> Inr 0 \<and> py_int mx (py_strip s) \<noteq> Inr 1" for s
    by (cases "py_int mx (py_strip s)") (auto simp: relevance_map_simps)
  have 3: "?f [] = None"
    by (simp add: py_int_empty)
  have 4: "\<exists>c\<in>set s. \<not> int_literal_char c \<Longrightarrow> ?f s = None" for s
    by (auto simp: label_of_not_literal)
  show ?thesis
    unfolding process_binary_responses_eq using 0 1 2 3 4 by simp
qed

text \<open>The theorem at \<^verbatim>\<open>" 1 "\<close>, \<^verbatim>\<open>"yes"\<close>, the empty string and \<^verbatim>\<open>"\t0\n"\<close>.\<close>

theorem binary_parser_labels_witness:
  "py_strip '' 1 '' = ''1'' \<and> py_strip [CHR 0x09, CHR ''0'', CHR 0x0A] = ''0'' \<and>
   (\<exists>c\<in>set ''yes''. \<not> int_literal_char c) \<and>
   process_binary_responses 4300 ['' 1 '', ''yes'', [], [CHR 0x09, CHR ''0'', CHR 0x0A]] relevance_map
     = Inr [Some ''relevant'', None, None, Some ''irrelevant'']"
proof -
  let ?rs = "['' 1 '', ''yes'', [], [CHR 0x09, CHR ''0'', CHR 0x0A]]"
  have a: "py_strip '' 1 '' = ''1''" "py_strip [CHR 0x09, CHR ''0'', CHR 0x0A] = ''0''"
    by (simp_all add: py_strip_def py_isspace_def)
  have b: "\<exists>c\<in>set ''yes''. \<not> int_literal_char c"
    by (simp add: int_literal_char_def py_isspace_def digit_value_def)
  from binary_parser_labels [of 4300 ?rs] obtain out where
    o: "process_binary_responses 4300 ?rs relevance_map = Inr out" "length out = length ?rs"
    and p: "\<forall>i<length ?rs.
        (py_strip (?rs ! i) = ''0'' \<longrightarrow> out ! i = Some ''irrelevant'') \<and>
        (py_strip (?rs ! i) = ''1'' \<longrightarrow> out ! i = Some ''relevant'') \<and>
        (out ! i = None \<longleftrightarrow>
           py_int 4300 (py_strip (?rs ! i)) \<noteq> Inr 0 \<and> py_int 4300 (py_strip (?rs ! i)) \<noteq> Inr 1) \<and>
        (?rs ! i = [] \<longrightarrow> out ! i = None) \<and>
        ((\<exists>c\<in>set (?rs ! i). \<not> int_literal_char c) \<longrightarrow> out ! i = None)"
    by blast
  from p [rule_format, of 0] a have "out ! 0 = Some ''relevant''" by simp
  moreover from p [rule_format, of 1] b have "out ! 1 = None" by simp
  moreover from p [rule_format, of 2] have "out ! 2 = None" by simp
  moreover from p [rule_format, of 3] a have "out ! 3 = Some ''irrelevant''" by simp
  ultimately have "out = [Some ''relevant'', None, None, Some ''irrelevant'']"
    using o(2) by (auto simp: list_eq_iff_nth_eq nth_Cons' less_Suc_eq numeral_eq_Suc)
  with o(1) a b show ?thesis by blast
qed

text \<open>
  Claim C8. Every input whose stripped content \<^verbatim>\<open>int\<close> accepts with the value 0 or 1 is
  mapped to its label and not to the unknown marker, so are the numerals \<^verbatim>\<open>"+1"\<close>,
  \<^verbatim>\<open>"01"\<close> and \<^verbatim>\<open>"1\n"\<close>; and for every map, the unknown marker is returned exactly
  for the strings that \<^verbatim>\<open>int\<close> rejects or reads as an integer that is not a key.
\<close>

theorem binary_parser_accepts_integer_literals:
  "(\<forall>s v. py_int mx (py_strip s) = Inr v \<and> (v = 0 \<or> v = 1) \<longrightarrow>
       (\<exists>l. relevance_map v = Some l \<and>
            process_binary_responses mx [s] relevance_map = Inr [Some l])) \<and>
   (\<forall>s. process_binary_responses mx [s] m = Inr [None] \<longleftrightarrow>
       py_int mx (py_strip s) = Inl ValueError \<or>
       (\<exists>v. py_int mx (py_strip s) = Inr v \<and> v \<notin> dom m)) \<and>
   process_binary_responses mx [''+1'', ''01'', [CHR ''1'', CHR 0x0A]] relevance_map =
     Inr [Some ''relevant'', Some ''relevant'', Some ''relevant'']"
proof (intro conjI allI impI)
  fix s v
  assume "py_int mx (py_strip s) = Inr v \<and> (v = 0 \<or> v = 1)"
  then show "\<exists>l. relevance_map v = Some l \<and>
            process_binary_responses mx [s] relevance_map = Inr [Some l]"
    by (auto simp: process_binary_responses_eq relevance_map_simps)
next
  fix s
  show "process_binary_responses mx [s] m = Inr [None] \<longleftrightarrow>
       py_int mx (py_strip s) = Inl ValueError \<or>
       (\<exists>v. py_int mx (py_strip s) = Inr v \<and> v \<notin> dom m)"
    by (cases "py_int mx (py_strip s)") (auto simp: process_binary_responses_eq dest: py_int_raises)
next
  show "process_binary_responses mx [''+1'', ''01'', [CHR ''1'', CHR 0x0A]] relevance_map =
     Inr [Some ''relevant'', Some ''relevant'', Some ''relevant'']"
    by (simp add: parse_defs)
qed

text \<open>The theorem at \<^verbatim>\<open>"-0_0"\<close>, which \<^verbatim>\<open>int\<close> reads as 0, and at \<^verbatim>\<open>"7"\<close>, not a key.\<close>

theorem binary_parser_accepts_integer_literals_witness:
  "py_int 4300 (py_strip ''-0_0'') = Inr 0 \<and>
   process_binary_responses 4300 [''-0_0''] relevance_map = Inr [Some ''irrelevant''] \<and>
   py_int 4300 (py_strip ''7'') = Inr 7 \<and> 7 \<notin> dom relevance_map \<and>
   process_binary_responses 4300 [''7''] relevance_map = Inr [None]"
proof -
  have a: "py_int 4300 (py_strip ''-0_0'') = Inr 0" "py_int 4300 (py_strip ''7'') = Inr 7"
    by (simp_all add: parse_defs)
  have b: "7 \<notin> dom relevance_map" "relevance_map 0 = Some ''irrelevant''"
    by (simp_all add: relevance_map_def)
  note t = binary_parser_accepts_integer_literals [of 4300 relevance_map]
  from t a(1) b(2) have "process_binary_responses 4300 [''-0_0''] relevance_map = Inr [Some ''irrelevant'']"
    by fastforce
  moreover from t a(2) b(1) have "process_binary_responses 4300 [''7''] relevance_map = Inr [None]"
    by blast
  ultimately show ?thesis using a b by simp
qed

section \<open>Properties of the precision@k cell\<close>

lemma array_iadd_map:
  "array_iadd (map g xs) (map f xs) = Inr (map (\<lambda>x. g x + real_of_int (f x)) xs)"
  by (simp add: array_iadd_def zip_map_map zip_same_conv_map)

lemma zeros_map: "replicate (length xs) (0::real) = map (\<lambda>x. 0) xs"
  by (simp add: map_replicate_const)

lemma precision_step_0:
  "precision_step query_df 0 st = Inr st' \<longleftrightarrow>
     (\<exists>arr. array_iadd (num_relevant_documents_array st)
               (map (\<lambda>r. is_relevant (openai_relevance_0 r)) query_df) = Inr arr \<and>
        st' = \<lparr>num_retrieved_documents = 1, num_relevant_documents_array = arr,
              openai_precision = (openai_precision st)(1 \<mapsto> map (\<lambda>x. x / 1) arr)\<rparr>)"
  by (auto simp: precision_step_def relevance_column_def array_div_def o_def split: sum.splits)

lemma precision_cell_2:
  "precision_cell 2 query_df =
     Inr \<lparr>num_retrieved_documents = 2,
          num_relevant_documents_array =
            map (\<lambda>r. real_of_int (is_relevant (openai_relevance_0 r)) +
                       real_of_int (is_relevant (openai_relevance_1 r))) query_df,
          openai_precision =
            [1 \<mapsto> map (\<lambda>r. real_of_int (is_relevant (openai_relevance_0 r))) query_df,
             2 \<mapsto> map (\<lambda>r. (real_of_int (is_relevant (openai_relevance_0 r)) +
                       real_of_int (is_relevant (openai_relevance_1 r))) / 2) query_df]\<rparr>"
proof -
  have r: "[0..<2] = [0, 1]" by (simp add: upt_rec)
  show ?thesis
    unfolding precision_cell_def r zeros_map
    by (simp add: precision_step_def relevance_column_def array_div_def array_iadd_map o_def
          numeral_2_eq_2)
qed

lemma spec_precision_at_1:
  "spec_precision_at (Suc 0) (row_labels r) = real_of_int (is_relevant (openai_relevance_0 r))"
  by (simp add: spec_precision_at_def row_labels_def is_relevant_def)

lemma spec_precision_at_2:
  "spec_precision_at 2 (row_labels r) =
     (real_of_int (is_relevant (openai_relevance_0 r)) +
      real_of_int (is_relevant (openai_relevance_1 r))) / 2"
  by (simp add: spec_precision_at_def row_labels_def is_relevant_def)

text \<open>
  Claim C2. For a frame with at least one row, the cell returns, and for \<open>k = 1\<close> and
  \<open>k = 2\<close> the column \<^verbatim>\<open>openai_precision@k\<close> holds, in every row, the number of labels
  equal to \<^verbatim>\<open>"relevant"\<close> among the first \<open>k\<close> relevance cells of that row, divided
  by \<open>k\<close>. The row (relevant, irrelevant) has precision@1 = 1.0 and precision@2 = 0.5.
\<close>

theorem precision_at_k_counts:
  assumes "query_df \<noteq> []"
  shows "\<exists>st. precision_cell num_retrieved_documents_initial query_df = Inr st \<and>
     (\<forall>k\<in>{1, 2}. \<exists>col. openai_precision st k = Some col \<and> length col = length query_df \<and>
        (\<forall>i<length query_df. col ! i = spec_precision_at k (row_labels (query_df ! i)))) \<and>
     (\<exists>st. precision_cell num_retrieved_documents_initial
          [\<lparr>openai_relevance_0 = Some ''relevant'', openai_relevance_1 = Some ''irrelevant''\<rparr>]
          = Inr st \<and>
        openai_precision st 1 = Some [1.0] \<and> openai_precision st 2 = Some [0.5])"
proof -
  have "\<exists>st. precision_cell num_retrieved_documents_initial
          [\<lparr>openai_relevance_0 = Some ''relevant'', openai_relevance_1 = Some ''irrelevant''\<rparr>]
          = Inr st \<and>
        openai_precision st 1 = Some [1.0] \<and> openai_precision st 2 = Some [0.5]"
    by (simp add: num_retrieved_documents_initial_def precision_cell_2 is_relevant_def)
  then show ?thesis
    by (simp add: num_retrieved_documents_initial_def precision_cell_2
          spec_precision_at_1 spec_precision_at_2)
qed

text \<open>The theorem at a frame of two rows: (relevant, relevant) and (unknown, relevant).\<close>

theorem precision_at_k_counts_witness:
  "[\<lparr>openai_relevance_0 = Some ''relevant'', openai_relevance_1 = Some ''relevant''\<rparr>,
    \<lparr>openai_relevance_0 = None, openai_relevance_1 = Some ''relevant''\<rparr>] \<noteq> [] \<and>
   (\<exists>st. precision_cell num_retrieved_documents_initial
      [\<lparr>openai_relevance_0 = Some ''relevant'', openai_relevance_1 = Some ''relevant''\<rparr>,
       \<lparr>openai_relevance_0 = None, openai_relevance_1 = Some ''relevant''\<rparr>] = Inr st \<and>
     openai_precision st 1 = Some [1, 0] \<and> openai_precision st 2 = Some [1, 1 / 2])"
proof -
  let ?df = "[\<lparr>openai_relevance_0 = Some ''relevant'', openai_relevance_1 = Some ''relevant''\<rparr>,
    \<lparr>openai_relevance_0 = None, openai_relevance_1 = Some ''relevant''\<rparr>]"
  have ne: "?df \<noteq> []" by simp
  from precision_at_k_counts [OF ne] obtain st where
    s: "precision_cell num_retrieved_documents_initial ?df = Inr st"
    and p: "\<forall>k\<in>{1, 2}. \<exists>col. openai_precision st k = Some col \<and> length col = length ?df \<and>
        (\<forall>i<length ?df. col ! i = spec_precision_at k (row_labels (?df ! i)))" by blast
  from p obtain c1 where c1: "openai_precision st 1 = Some c1" "length c1 = length ?df"
    "\<forall>i<length ?df. c1 ! i = spec_precision_at 1 (row_labels (?df ! i))" by blast
  from p obtain c2 where c2: "openai_precision st 2 = Some c2" "length c2 = length ?df"
    "\<forall>i<length ?df. c2 ! i = spec_precision_at 2 (row_labels (?df ! i))" by blast
  from c1(3) [rule_format, of 0] c1(3) [rule_format, of 1]
  have "c1 ! 0 = 1" "c1 ! 1 = 0" by (simp_all add: spec_precision_at_def row_labels_def)
  with c1(2) have e1: "c1 = [1, 0]"
    by (auto simp: list_eq_iff_nth_eq nth_Cons' less_Suc_eq numeral_eq_Suc)
  from c2(3) [rule_format, of 0] c2(3) [rule_format, of 1]
  have "c2 ! 0 = 1" "c2 ! 1 = 1 / 2" by (simp_all add: spec_precision_at_def row_labels_def)
  with c2(2) have e2: "c2 = [1, 1 / 2]"
    by (auto simp: list_eq_iff_nth_eq nth_Cons' less_Suc_eq numeral_eq_Suc)
  from s c1(1) c2(1) e1 e2 ne show ?thesis by blast
qed

subsection \<open>The divisor\<close>

lemma precision_step_no_zero_division: "precision_step query_df i st \<noteq> Inl ZeroDivisionError"
  by (auto simp: precision_step_def relevance_column_def array_iadd_def array_div_def Let_def
           split: sum.splits if_splits)

lemma precision_loop_no_zero_division:
  "precision_loop query_df is st \<noteq> Inl ZeroDivisionError"
  by (induction "is" arbitrary: st)
     (auto simp: precision_step_no_zero_division split: sum.splits)

text \<open>
  Claim C6. The loop runs over the indices 0 and 1. A step that returns has set
  \<^verbatim>\<open>num_retrieved_documents\<close> to the index plus one, which is not zero, and has stored the
  quotient by that number; no step, and so not the cell, on any frame, divides by zero.
\<close>

theorem precision_divisor_never_zero:
  "[0..<num_retrieved_documents_initial] = [0, 1] \<and>
   (\<forall>i st st'. precision_step query_df i st = Inr st' \<longrightarrow>
        num_retrieved_documents st' = i + 1 \<and> i + 1 \<noteq> 0 \<and>
        (\<exists>arr q. array_div arr (num_retrieved_documents st') = Inr q \<and>
                 openai_precision st' (num_retrieved_documents st') = Some q)) \<and>
   (\<forall>i st. precision_step query_df i st \<noteq> Inl ZeroDivisionError) \<and>
   precision_cell num_retrieved_documents_initial query_df \<noteq> Inl ZeroDivisionError"
proof (intro conjI allI impI)
  show "[0..<num_retrieved_documents_initial] = [0, 1]"
    by (simp add: num_retrieved_documents_initial_def upt_rec)
next
  fix i st st'
  assume a: "precision_step query_df i st = Inr st'"
  then show "num_retrieved_documents st' = i + 1"
    by (auto simp: precision_step_def Let_def split: sum.splits)
  show "i + 1 \<noteq> 0" by simp
  from a show "\<exists>arr q. array_div arr (num_retrieved_documents st') = Inr q \<and>
                 openai_precision st' (num_retrieved_documents st') = Some q"
    by (auto simp: precision_step_def Let_def split: sum.splits)
next
  fix i st
  show "precision_step query_df i st \<noteq> Inl ZeroDivisionError"
    by (rule precision_step_no_zero_division)
next
  show "precision_cell num_retrieved_documents_initial query_df \<noteq> Inl ZeroDivisionError"
    by (simp add: precision_cell_def precision_loop_no_zero_division)
qed

text \<open>The theorem at the second step (index 1) on the one-row frame (relevant, unknown).\<close>

theorem precision_divisor_never_zero_witness:
  "precision_step [\<lparr>openai_relevance_0 = Some ''relevant'', openai_relevance_1 = None\<rparr>] 1
     \<lparr>num_retrieved_documents = 1, num_relevant_documents_array = [1],
      openai_precision = [1 \<mapsto> [1]]\<rparr>
   = Inr \<lparr>num_retrieved_documents = 2, num_relevant_documents_array = [1],
      openai_precision = [1 \<mapsto> [1], 2 \<mapsto> [1 / 2]]\<rparr> \<and>
   num_retrieved_documents \<lparr>num_retrieved_documents = 2, num_relevant_documents_array = [1],
      openai_precision = [1 \<mapsto> [1], 2 \<mapsto> [1 / 2 :: real]]\<rparr> = 1 + 1"
proof -
  let ?df = "[\<lparr>openai_relevance_0 = Some ''relevant'', openai_relevance_1 = None\<rparr>]"
  let ?st = "\<lparr>num_retrieved_documents = 1, num_relevant_documents_array = [1],
      openai_precision = [1 \<mapsto> [1]]\<rparr>"
  let ?st' = "\<lparr>num_retrieved_documents = 2, num_relevant_documents_array = [1],
      openai_precision = [1 \<mapsto> [1], 2 \<mapsto> [1 / 2 :: real]]\<rparr>"
  have a: "precision_step ?df 1 ?st = Inr ?st'"
    by (simp add: precision_step_def relevance_column_def array_iadd_def array_div_def
          is_relevant_def numeral_2_eq_2)
  from precision_divisor_never_zero [of ?df] a
  have "num_retrieved_documents ?st' = 1 + 1" by blast
  with a show ?thesis by blast
qed

subsection \<open>Unknown labels\<close>






section \<open>Properties of the loader\<close>

lemma load_loop_aligned:
  "load_loop docstore vector_store text_list embeddings_list ids = Inr (tl', el') \<Longrightarrow>
     \<exists>ts es. tl' = text_list @ ts \<and> el' = embeddings_list @ es \<and>
       length ts = length ids \<and> length es = length ids \<and>
       (\<forall>i<length ids. docstore_text docstore (ids ! i) = Inr (ts ! i) \<and>
                        vector_store_embedding vector_store (ids ! i) = Inr (es ! i))"
proof (induction ids arbitrary: text_list embeddings_list)
  case Nil
  then show ?case by simp
next
  case (Cons doc_id rest)
  from Cons.prems obtain t v where
    t: "docstore_text docstore doc_id = Inr t" and
    v: "vector_store_embedding vector_store doc_id = Inr v" and
    r: "load_loop docstore vector_store (text_list @ [t]) (embeddings_list @ [v]) rest = Inr (tl', el')"
    by (auto split: sum.splits)
  from Cons.IH [OF r] obtain ts es where
    h: "tl' = (text_list @ [t]) @ ts" "el' = (embeddings_list @ [v]) @ es"
       "length ts = length rest" "length es = length rest"
       "\<forall>i<length rest. docstore_text docstore (rest ! i) = Inr (ts ! i) \<and>
                        vector_store_embedding vector_store (rest ! i) = Inr (es ! i)"
    by blast
  have "\<forall>i<length (doc_id # rest).
          docstore_text docstore ((doc_id # rest) ! i) = Inr ((t # ts) ! i) \<and>
          vector_store_embedding vector_store ((doc_id # rest) ! i) = Inr ((v # es) ! i)"
    using t v h(5) by (auto simp: nth_Cons split: nat.splits)
  with h(1-4) show ?case
    by (intro exI [of _ "t # ts"] exI [of _ "v # es"]) simp
qed

lemma load_loop_returns:
  "(\<forall>doc_id\<in>set ids. (\<exists>t. docstore_text docstore doc_id = Inr t) \<and>
                       (\<exists>v. vector_store_embedding vector_store doc_id = Inr v)) \<Longrightarrow>
   \<exists>r. load_loop docstore vector_store text_list embeddings_list ids = Inr r"
  by (induction ids arbitrary: text_list embeddings_list) auto

text \<open>
  The function returns a frame when the docstore has its data and every \<^verbatim>\<open>doc_id\<close> has
  a text and an embedding; the check of \<^verbatim>\<open>pd.DataFrame\<close> on the lengths never fails.
\<close>

lemma load_returns:
  assumes "getitem (map_of docstore) ''docstore/data'' = Inr d"
    and "\<forall>doc_id\<in>set (map fst d). (\<exists>t. docstore_text docstore doc_id = Inr t) \<and>
                       (\<exists>v. vector_store_embedding vector_store doc_id = Inr v)"
  shows "\<exists>df. load_llama_index_database_into_dataframe docstore vector_store = Inr df"
proof -
  from load_loop_returns [OF assms(2)] obtain tl' el' where
    l: "load_loop docstore vector_store [] [] (map fst d) = Inr (tl', el')"
    by (metis surj_pair)
  from load_loop_aligned [OF l] have "length tl' = length el'" by auto
  with assms(1) l show ?thesis
    by (simp add: load_llama_index_database_into_dataframe_def make_dataframe_def)
qed

text \<open>
  Claim C5. A dataframe that \<open>load_llama_index_database_into_dataframe\<close> returns has
  columns of equal length, one row for each key of \<^verbatim>\<open>docstore["docstore/data"]\<close> in
  iteration order, and in row \<open>i\<close> the text and the embedding are the ones looked up
  under the \<open>i\<close>-th \<^verbatim>\<open>doc_id\<close>.
\<close>

theorem dataframe_columns_aligned:
  assumes "load_llama_index_database_into_dataframe docstore vector_store = Inr df"
  shows "length (text_column df) = length (text_vector_column df) \<and>
     (\<exists>d. getitem (map_of docstore) ''docstore/data'' = Inr d \<and>
        length (text_column df) = length d \<and>
        (\<forall>i<length d.
           docstore_text docstore (fst (d ! i)) = Inr (text_column df ! i) \<and>
           vector_store_embedding vector_store (fst (d ! i)) = Inr (text_vector_column df ! i)))"
proof -
  from assms obtain d tl' el' where
    d: "getitem (map_of docstore) ''docstore/data'' = Inr d" and
    l: "load_loop docstore vector_store [] [] (map fst d) = Inr (tl', el')" and
    m: "make_dataframe tl' el' = Inr df"
    by (auto simp: load_llama_index_database_into_dataframe_def split: sum.splits prod.splits)
  from load_loop_aligned [OF l] have
    a: "length tl' = length d" "length el' = length d"
       "\<forall>i<length d. docstore_text docstore (fst (d ! i)) = Inr (tl' ! i) \<and>
                      vector_store_embedding vector_store (fst (d ! i)) = Inr (el' ! i)"
    by auto
  from m have "text_column df = tl'" "text_vector_column df = el'"
    by (auto simp: make_dataframe_def split: if_splits)
  with a d show ?thesis by simp
qed

text \<open>The theorem at a docstore of two documents whose embeddings are stored in the other order.\<close>

theorem dataframe_columns_aligned_witness:
  "load_llama_index_database_into_dataframe
     [(''docstore/data'',
        [(''a'', [(''__data__'', [(''text'', ''alpha'')])]),
         (''b'', [(''__data__'', [(''text'', ''beta'')])])])]
     [(''embedding_dict'', [(''b'', [1 / 2 :: real]), (''a'', [1, 2])])]
   = Inr \<lparr>text_column = [''alpha'', ''beta''], text_vector_column = [[1, 2], [1 / 2]]\<rparr> \<and>
   length (text_column \<lparr>text_column = [''alpha'', ''beta''], text_vector_column = [[1, 2], [1 / 2 :: real]]\<rparr>)
     = length (text_vector_column
         \<lparr>text_column = [''alpha'', ''beta''], text_vector_column = [[1, 2], [1 / 2 :: real]]\<rparr>)"
proof -
  let ?ds = "[(''docstore/data'',
        [(''a'', [(''__data__'', [(''text'', ''alpha'')])]),
         (''b'', [(''__data__'', [(''text'', ''beta'')])])])]"
  let ?vs = "[(''embedding_dict'', [(''b'', [1 / 2 :: real]), (''a'', [1, 2])])]"
  let ?df = "\<lparr>text_column = [''alpha'', ''beta''], text_vector_column = [[1, 2], [1 / 2 :: real]]\<rparr>"
  have a: "load_llama_index_database_into_dataframe ?ds ?vs = Inr ?df"
    by (simp add: load_llama_index_database_into_dataframe_def getitem_def docstore_text_def
          vector_store_embedding_def then_getitem_def make_dataframe_def)
  from dataframe_columns_aligned [OF a]
  have "length (text_column ?df) = length (text_vector_column ?df)" by blast
  with a show ?thesis by blast
qed

section \<open>Properties of the retried evaluation call\<close>












end
